theory Spec2Isabelle
  imports Complex_Main "HOL-Library.Char_ord" "HOL-Library.List_Lexorder" "HOL-Library.Multiset"
begin

section \<open>Values and exceptions\<close>

text \<open>
  The module \<^verbatim>\<open>src/pyhf/utils.py\<close> works on decoded JSON documents (the schema files read by
  \<^verbatim>\<open>json.load\<close>) and on Python objects handed in by the caller (the instance to validate,
  the object to digest).  A Python \<^verbatim>\<open>str\<close> is modelled by the list of its UTF-8 bytes:
  comparison of such lists is comparison by code point, and the characters the code looks
  for (\<^verbatim>\<open>=\<close>, \<^verbatim>\<open>/\<close>, the newline) are single bytes.  A Python \<^verbatim>\<open>dict\<close> is an association list
  in insertion order; a dict has no repeated key, and lookups take the first binding.
  Floats are reals (not-a-number and the infinities are left out).
\<close>

datatype json =
    JNull
  | JBool bool
  | JInt int
  | JFloat real
  | JStr string
  | JArr "json list"
  | JObj "(string \<times> json) list"

text \<open>
  A Python object as the caller passes it: the JSON-like builtin types, and \<open>PTensor cls xs\<close>,
  an instance of a class named \<open>cls\<close> that is none of the builtin types (a tensor of some
  backend, say) and that iterates over the elements \<open>xs\<close>.
\<close>

datatype pyval =
    PNone
  | PBool bool
  | PInt int
  | PFloat real
  | PStr string
  | PList "pyval list"
  | PDict "(string \<times> pyval) list"
  | PTensor string "pyval list"

datatype path_elem = Key string | Idx nat

text \<open>
  What a \<^verbatim>\<open>jsonschema.ValidationError\<close> carries: the keyword that failed (none for the
  \<^verbatim>\<open>false\<close> schema), the path into the instance and the path into the schema.
\<close>

datatype violation =
  Violation (v_keyword: "string option") (v_path: "path_elem list") (v_schema_path: "path_elem list")

datatype exn =
    FileNotFoundError
  | OSError
  | JSONDecodeError
  | KeyError
  | TypeError
  | IndexError
  | ValueError
  | AttributeError
  | RecursionError
  | UnknownType
  | RefResolutionError
  | ValidationError violation
  | InvalidSpecification violation string
  | YAMLError
  | Unmodelled string

section \<open>Paths (\<^verbatim>\<open>pathlib.PurePosixPath\<close>)\<close>

text \<open>
  \<^verbatim>\<open>str(Path(a).joinpath(b, ...))\<close> on a POSIX system: the parts are read from the right up to
  the first one that is absolute, each is split at \<^verbatim>\<open>/\<close>, and empty components and \<^verbatim>\<open>.\<close> are
  dropped.
\<close>

fun split_on :: "char \<Rightarrow> string \<Rightarrow> string list" where
  "split_on sep [] = [[]]"
| "split_on sep (c # cs) =
     (if c = sep then [] # split_on sep cs
      else (case split_on sep cs of [] \<Rightarrow> [[c]] | w # ws \<Rightarrow> (c # w) # ws))"

fun str_join :: "string \<Rightarrow> string list \<Rightarrow> string" where
  "str_join sep [] = []"
| "str_join sep [x] = x"
| "str_join sep (x # y # ys) = x @ sep @ str_join sep (y # ys)"

definition splitroot :: "string \<Rightarrow> string \<times> string" where
  "splitroot part =
     (if part \<noteq> [] \<and> hd part = CHR ''/''
      then (let stripped = dropWhile (\<lambda>c. c = CHR ''/'') part
            in (if length part - length stripped = 2 then ''//'' else ''/'', stripped))
      else ('''', part))"

definition components :: "string \<Rightarrow> string list" where
  "components rel = filter (\<lambda>x. x \<noteq> [] \<and> x \<noteq> ''.'') (split_on CHR ''/'' rel)"

fun parse_parts_rev :: "string list \<Rightarrow> string \<times> string list" where
  "parse_parts_rev [] = ('''', [])"
| "parse_parts_rev (p # ps) =
     (if p = [] then parse_parts_rev ps
      else (case splitroot p of
              (anchor, rel) \<Rightarrow>
                if anchor \<noteq> [] then (anchor, components rel)
                else (case parse_parts_rev ps of (r, cs) \<Rightarrow> (r, cs @ components rel))))"

definition format_parsed_parts :: "string \<times> string list \<Rightarrow> string" where
  "format_parsed_parts p =
     (case p of
        (anchor, cs) \<Rightarrow>
          if anchor \<noteq> [] then anchor @ str_join ''/'' cs
          else if cs = [] then ''.'' else str_join ''/'' cs)"

definition joinpath :: "string \<Rightarrow> string list \<Rightarrow> string" where
  "joinpath a bs = format_parsed_parts (parse_parts_rev (rev (a # bs)))"

section \<open>The schema cache and \<^verbatim>\<open>load_schema\<close>\<close>

text \<open>
  The keys of the Python dict \<^verbatim>\<open>SCHEMA_CACHE\<close>.  The module stores a schema under the value
  of its \<^verbatim>\<open>$id\<close> entry, whatever that value is: numbers and booleans that compare equal are
  one key, lists and dicts are unhashable.
\<close>

datatype dict_key = KStr string | KNum real | KNone

type_synonym cache = "dict_key \<rightharpoonup> json"

definition hash_key :: "json \<Rightarrow> exn + dict_key" where
  "hash_key v =
     (case v of
        JStr s \<Rightarrow> Inr (KStr s)
      | JInt i \<Rightarrow> Inr (KNum (of_int i))
      | JFloat r \<Rightarrow> Inr (KNum r)
      | JBool b \<Rightarrow> Inr (KNum (if b then 1 else 0))
      | JNull \<Rightarrow> Inr KNone
      | JArr _ \<Rightarrow> Inl TypeError
      | JObj _ \<Rightarrow> Inl TypeError)"

text \<open>\<^verbatim>\<open>doc[name]\<close> for a string \<open>name\<close>: only a dict can be indexed by a string.\<close>

definition getitem :: "json \<Rightarrow> string \<Rightarrow> exn + json" where
  "getitem doc name =
     (case doc of
        JObj kvs \<Rightarrow> (case map_of kvs name of None \<Rightarrow> Inl KeyError | Some v \<Rightarrow> Inr v)
      | _ \<Rightarrow> Inl TypeError)"

text \<open>
  What \<^verbatim>\<open>open(path)\<close> followed by \<^verbatim>\<open>json.load\<close> finds at a path inside the package: no file,
  something that cannot be opened for reading, a file that is not JSON, or a document.
\<close>

datatype fs_entry = Absent | Unreadable | Malformed | Document json

type_synonym files = "string \<Rightarrow> fs_entry"

definition SCHEMA_BASE :: string where
  "SCHEMA_BASE = ''https://scikit-hep.org/pyhf/schemas/''"

definition SCHEMA_VERSION :: string where
  "SCHEMA_VERSION = ''1.0.0''"

text \<open>\<^verbatim>\<open>if not version: version = SCHEMA_VERSION\<close>: both \<^verbatim>\<open>None\<close> and the empty string are falsy.\<close>

definition version_or_default :: "string option \<Rightarrow> string" where
  "version_or_default version =
     (case version of None \<Rightarrow> SCHEMA_VERSION | Some v \<Rightarrow> if v = [] then SCHEMA_VERSION else v)"

definition cache_key :: "string \<Rightarrow> string \<Rightarrow> dict_key" where
  "cache_key version schema_id = KStr (SCHEMA_BASE @ joinpath version [schema_id])"

definition schema_path :: "string \<Rightarrow> string \<Rightarrow> string" where
  "schema_path version schema_id = joinpath ''schemas'' [version, schema_id]"

text \<open>
  \<^verbatim>\<open>load_schema(schema_id, version=None)\<close>, with the global \<^verbatim>\<open>SCHEMA_CACHE\<close> passed in and
  returned.  An exception leaves the cache as it was: the assignment
  \<^verbatim>\<open>SCHEMA_CACHE[schema['$id']] = schema\<close> evaluates \<^verbatim>\<open>schema['$id']\<close> and hashes it before it
  stores anything.
\<close>

definition load_schema ::
  "files \<Rightarrow> cache \<Rightarrow> string \<Rightarrow> string option \<Rightarrow> (exn + json) \<times> cache" where
  "load_schema fs SCHEMA_CACHE schema_id version0 =
     (let version = version_or_default version0 in
      case SCHEMA_CACHE (cache_key version schema_id) of
        Some doc \<Rightarrow> (Inr doc, SCHEMA_CACHE)
      | None \<Rightarrow>
          (case fs (schema_path version schema_id) of
             Absent \<Rightarrow> (Inl FileNotFoundError, SCHEMA_CACHE)
           | Unreadable \<Rightarrow> (Inl OSError, SCHEMA_CACHE)
           | Malformed \<Rightarrow> (Inl JSONDecodeError, SCHEMA_CACHE)
           | Document schema \<Rightarrow>
               (case getitem schema ''$id'' of
                  Inl e \<Rightarrow> (Inl e, SCHEMA_CACHE)
                | Inr ident \<Rightarrow>
                    (case hash_key ident of
                       Inl e \<Rightarrow> (Inl e, SCHEMA_CACHE)
                     | Inr k \<Rightarrow>
                         (let SCHEMA_CACHE' = SCHEMA_CACHE(k \<mapsto> schema) in
                          case SCHEMA_CACHE' k of
                            None \<Rightarrow> (Inl KeyError, SCHEMA_CACHE')
                          | Some doc \<Rightarrow> (Inr doc, SCHEMA_CACHE'))))))"

text \<open>
  The module calls \<^verbatim>\<open>load_schema('defs.json')\<close> when it is imported; the cache any later call
  sees starts from there.
\<close>

definition initial_cache :: "files \<Rightarrow> cache" where
  "initial_cache fs = snd (load_schema fs Map.empty ''defs.json'' None)"

section \<open>The validation library (\<^verbatim>\<open>jsonschema\<close>, Draft 6)\<close>














subsection \<open>Type checkers\<close>

text \<open>
  A \<^verbatim>\<open>TypeChecker\<close> maps a type name to a predicate on instances; asking for a name it does
  not know raises \<^verbatim>\<open>UnknownType\<close>.  The Draft 6 checker knows seven names.  A \<open>PTensor\<close> is an
  instance of none of the builtin classes and is not a number.
\<close>

type_synonym type_checker = "string \<rightharpoonup> (pyval \<Rightarrow> bool)"

definition is_array :: "pyval \<Rightarrow> bool" where
  "is_array instance = (case instance of PList _ \<Rightarrow> True | _ \<Rightarrow> False)"

definition is_bool :: "pyval \<Rightarrow> bool" where
  "is_bool instance = (case instance of PBool _ \<Rightarrow> True | _ \<Rightarrow> False)"

definition is_integer :: "pyval \<Rightarrow> bool" where
  "is_integer instance = (case instance of PInt _ \<Rightarrow> True | PFloat r \<Rightarrow> r \<in> \<int> | _ \<Rightarrow> False)"

definition is_null :: "pyval \<Rightarrow> bool" where
  "is_null instance = (case instance of PNone \<Rightarrow> True | _ \<Rightarrow> False)"

definition is_number :: "pyval \<Rightarrow> bool" where
  "is_number instance = (case instance of PInt _ \<Rightarrow> True | PFloat _ \<Rightarrow> True | _ \<Rightarrow> False)"

definition is_object :: "pyval \<Rightarrow> bool" where
  "is_object instance = (case instance of PDict _ \<Rightarrow> True | _ \<Rightarrow> False)"

definition is_string :: "pyval \<Rightarrow> bool" where
  "is_string instance = (case instance of PStr _ \<Rightarrow> True | _ \<Rightarrow> False)"

definition draft6_type_checker :: type_checker where
  "draft6_type_checker =
     [''array'' \<mapsto> is_array, ''boolean'' \<mapsto> is_bool, ''integer'' \<mapsto> is_integer,
      ''null'' \<mapsto> is_null, ''number'' \<mapsto> is_number, ''object'' \<mapsto> is_object,
      ''string'' \<mapsto> is_string]"

definition redefine :: "string \<Rightarrow> (pyval \<Rightarrow> bool) \<Rightarrow> type_checker \<Rightarrow> type_checker" where
  "redefine name check tc = tc(name \<mapsto> check)"


subsection \<open>Keywords\<close>














text \<open>
  \<^verbatim>\<open>Validator(schema, resolver=..., format_checker=None).validate(instance)\<close> raises the first
  violation \<^verbatim>\<open>iter_errors\<close> yields and returns \<^verbatim>\<open>None\<close> when there is none.  The result is the
  exception raised, if any.  The resolver (built from the cache and the schema name) is only
  used by \<^verbatim>\<open>$ref\<close>.
\<close>

type_synonym validator = "type_checker \<Rightarrow> cache \<Rightarrow> string \<Rightarrow> json \<Rightarrow> pyval \<Rightarrow> exn option"


section \<open>\<^verbatim>\<open>validate\<close>\<close>

text \<open>
  \<^verbatim>\<open>isinstance(instance, (list, *tensor.array_types))\<close>.  \<^verbatim>\<open>tensor.array_types\<close> belongs to
  another module of the package; it is passed in as the list of the class names of the
  backends loaded so far.
\<close>

definition is_array_or_tensor :: "string list \<Rightarrow> pyval \<Rightarrow> bool" where
  "is_array_or_tensor array_types instance =
     (case instance of
        PList _ \<Rightarrow> True
      | PTensor cls _ \<Rightarrow> cls \<in> set array_types
      | _ \<Rightarrow> False)"

text \<open>
  \<^verbatim>\<open>validate(spec, schema_id, *, version=None, allow_tensors=True)\<close>.  \<^verbatim>\<open>load_schema\<close> is called
  outside the \<^verbatim>\<open>try\<close>, so what it raises goes to the caller as it is; inside, only a
  \<^verbatim>\<open>jsonschema.ValidationError\<close> is caught and wrapped.  The library is a parameter: the
  theorems that do not depend on what it computes hold for any library.
\<close>

definition validate ::
  "validator \<Rightarrow> files \<Rightarrow> string list \<Rightarrow> cache \<Rightarrow> pyval \<Rightarrow> string \<Rightarrow> string option \<Rightarrow> bool
     \<Rightarrow> (exn + unit) \<times> cache" where
  "validate lib fs array_types SCHEMA_CACHE spec schema_id version allow_tensors =
     (case load_schema fs SCHEMA_CACHE schema_id version of
        (Inl e, SCHEMA_CACHE') \<Rightarrow> (Inl e, SCHEMA_CACHE')
      | (Inr schema, SCHEMA_CACHE') \<Rightarrow>
          (let type_checker =
                 (if allow_tensors
                  then redefine ''array'' (is_array_or_tensor array_types) draft6_type_checker
                  else draft6_type_checker)
           in case lib type_checker SCHEMA_CACHE' schema_id schema spec of
                None \<Rightarrow> (Inr (), SCHEMA_CACHE')
              | Some (ValidationError err) \<Rightarrow> (Inl (InvalidSpecification err schema_id), SCHEMA_CACHE')
              | Some e \<Rightarrow> (Inl e, SCHEMA_CACHE')))"

section \<open>Sequences of calls\<close>




section \<open>The schema store\<close>






section \<open>\<^verbatim>\<open>options_from_eqdelimstring\<close>\<close>

text \<open>
  \<^verbatim>\<open>opt.split('=', 1)\<close> and list subscripting.  The f-string reads element 0 and then element
  1 of the split; the second raises \<^verbatim>\<open>IndexError\<close> when the option has no \<^verbatim>\<open>=\<close>.  \<^verbatim>\<open>join\<close> runs
  the generator to its end before the YAML loader is called.
\<close>

definition split_once :: "char \<Rightarrow> string \<Rightarrow> string list" where
  "split_once sep s =
     (if sep \<in> set s
      then [takeWhile (\<lambda>c. c \<noteq> sep) s, tl (dropWhile (\<lambda>c. c \<noteq> sep) s)]
      else [s])"

definition subscript :: "'a list \<Rightarrow> nat \<Rightarrow> exn + 'a" where
  "subscript xs i = (if i < length xs then Inr (xs ! i) else Inl IndexError)"

definition option_line :: "string \<Rightarrow> exn + string" where
  "option_line opt =
     (case subscript (split_once CHR ''='' opt) 0 of
        Inl e \<Rightarrow> Inl e
      | Inr k \<Rightarrow>
          (case subscript (split_once CHR ''='' opt) 1 of
             Inl e \<Rightarrow> Inl e
           | Inr v \<Rightarrow> Inr (k @ '': '' @ v)))"

fun option_lines :: "string list \<Rightarrow> exn + string list" where
  "option_lines [] = Inr []"
| "option_lines (opt # opts) =
     (case option_line opt of
        Inl e \<Rightarrow> Inl e
      | Inr l \<Rightarrow> (case option_lines opts of Inl e \<Rightarrow> Inl e | Inr ls \<Rightarrow> Inr (l # ls)))"

text \<open>
  \<^verbatim>\<open>yaml.safe_load\<close> belongs to PyYAML.  On the empty stream it returns \<^verbatim>\<open>None\<close>; what it does on
  any other stream is a parameter.
\<close>

definition safe_load :: "(string \<Rightarrow> exn + pyval) \<Rightarrow> string \<Rightarrow> exn + pyval" where
  "safe_load nonempty_stream document =
     (if document = [] then Inr PNone else nonempty_stream document)"

definition options_from_eqdelimstring ::
  "(string \<Rightarrow> exn + pyval) \<Rightarrow> string list \<Rightarrow> exn + pyval" where
  "options_from_eqdelimstring nonempty_stream opts =
     (case option_lines opts of
        Inl e \<Rightarrow> Inl e
      | Inr ls \<Rightarrow> safe_load nonempty_stream (str_join [CHR 0x0A] ls))"

text \<open>The line the f-string builds from an option that has a delimiter.\<close>

definition key_value_line :: "string \<Rightarrow> string" where
  "key_value_line opt =
     takeWhile (\<lambda>c. c \<noteq> CHR ''='') opt @ '': '' @ tl (dropWhile (\<lambda>c. c \<noteq> CHR ''='') opt)"

definition is_mapping :: "exn + pyval \<Rightarrow> bool" where
  "is_mapping r = (case r of Inr (PDict _) \<Rightarrow> True | _ \<Rightarrow> False)"

section \<open>\<^verbatim>\<open>digest\<close>\<close>

text \<open>
  \<^verbatim>\<open>json.dumps(obj, sort_keys=True, ensure_ascii=False)\<close> with the default separators.  The
  items of a dict are sorted by key.  The text of a float is what \<^verbatim>\<open>float.__repr__\<close> gives, a
  parameter here.  An object of a class the encoder does not know raises \<^verbatim>\<open>TypeError\<close>.
\<close>

function nat_str :: "nat \<Rightarrow> string" where
  "nat_str n = (if n < 10 then [char_of (48 + n)] else nat_str (n div 10) @ [char_of (48 + n mod 10)])"
  by pat_completeness auto
termination
  by (relation "measure id") auto

definition int_str :: "int \<Rightarrow> string" where
  "int_str i = (if i < 0 then CHR ''-'' # nat_str (nat (- i)) else nat_str (nat i))"

definition hex_digit :: "nat \<Rightarrow> char" where
  "hex_digit n = (if n < 10 then char_of (48 + n) else char_of (87 + n))"

definition escape_char :: "char \<Rightarrow> string" where
  "escape_char c =
     (if c = CHR 0x22 then [CHR 0x5C, CHR 0x22]
      else if c = CHR 0x5C then [CHR 0x5C, CHR 0x5C]
      else if c = CHR 0x0A then [CHR 0x5C, CHR ''n'']
      else if c = CHR 0x0D then [CHR 0x5C, CHR ''r'']
      else if c = CHR 0x09 then [CHR 0x5C, CHR ''t'']
      else if c = CHR 0x08 then [CHR 0x5C, CHR ''b'']
      else if c = CHR 0x0C then [CHR 0x5C, CHR ''f'']
      else if (of_char c :: nat) < 32
        then [CHR 0x5C, CHR ''u'', CHR ''0'', CHR ''0'', hex_digit (of_char c div 16), hex_digit (of_char c mod 16)]
      else [c])"

definition encode_basestring :: "string \<Rightarrow> string" where
  "encode_basestring s = CHR 0x22 # concat (map escape_char s) @ [CHR 0x22]"

fun collect :: "(exn + 'a) list \<Rightarrow> exn + 'a list" where
  "collect [] = Inr []"
| "collect (Inl e # rs) = Inl e"
| "collect (Inr x # rs) = (case collect rs of Inl e \<Rightarrow> Inl e | Inr xs \<Rightarrow> Inr (x # xs))"

function dumps :: "(real \<Rightarrow> string) \<Rightarrow> pyval \<Rightarrow> exn + string" where
  "dumps float_repr PNone = Inr ''null''"
| "dumps float_repr (PBool b) = Inr (if b then ''true'' else ''false'')"
| "dumps float_repr (PInt i) = Inr (int_str i)"
| "dumps float_repr (PFloat r) = Inr (float_repr r)"
| "dumps float_repr (PStr s) = Inr (encode_basestring s)"
| "dumps float_repr (PList xs) =
     (case collect (map (dumps float_repr) xs) of
        Inl e \<Rightarrow> Inl e
      | Inr ss \<Rightarrow> Inr (''['' @ str_join '', '' ss @ '']''))"
| "dumps float_repr (PDict kvs) =
     (case collect (map (\<lambda>(k, v).
              (case dumps float_repr v of
                 Inl e \<Rightarrow> Inl e
               | Inr s \<Rightarrow> Inr (encode_basestring k @ '': '' @ s))) (sort_key fst kvs)) of
        Inl e \<Rightarrow> Inl e
      | Inr ss \<Rightarrow> Inr (''{'' @ str_join '', '' ss @ ''}''))"
| "dumps float_repr (PTensor cls xs) = Inl TypeError"
  by pat_completeness auto
termination
proof -
  have a: "size v < size (PDict kvs)" if "(k, v) \<in> set kvs" for k :: string and v kvs
    using that by (induction kvs) auto
  have b: "size v < size (PList vs)" if "v \<in> set vs" for v vs
    using that by (induction vs) auto
  show ?thesis
    apply (relation "measure (\<lambda>(f, v). size v)")
    apply (auto simp del: pyval.size dest!: a b)
    done
qed

text \<open>
  What \<^verbatim>\<open>getattr(hashlib, algorithm)\<close> finds.  The module holds the hash constructors, the two
  extendable-output constructors (whose \<^verbatim>\<open>hexdigest\<close> needs a length), functions that are not
  constructors, and attributes that cannot be called.  Any other name is looked up in
  \<open>undocumented\<close>, whatever else the installed module holds.
\<close>

datatype hashlib_attr = Constructor | XOFConstructor | OtherFunction | NotCallable

definition hashlib_getattr :: "(string \<Rightarrow> hashlib_attr option) \<Rightarrow> string \<Rightarrow> hashlib_attr option" where
  "hashlib_getattr undocumented name =
     (if name \<in> set [''md5'', ''sha1'', ''sha224'', ''sha256'', ''sha384'', ''sha512'',
                      ''blake2b'', ''blake2s'', ''sha3_224'', ''sha3_256'', ''sha3_384'',
                      ''sha3_512''] then Some Constructor
      else if name \<in> set [''shake_128'', ''shake_256''] then Some XOFConstructor
      else if name \<in> set [''new'', ''pbkdf2_hmac''] then Some OtherFunction
      else if name \<in> set [''algorithms_guaranteed'', ''algorithms_available'', ''__name__'',
                           ''__doc__''] then Some NotCallable
      else undocumented name)"

text \<open>
  \<^verbatim>\<open>digest(obj, algorithm='sha256')\<close>.  \<open>hexdigest a s\<close> is the hexadecimal digest of the bytes \<open>s\<close>
  under the algorithm named \<open>a\<close>.  The two \<^verbatim>\<open>try\<close> blocks turn a \<^verbatim>\<open>TypeError\<close> of the encoder
  and an \<^verbatim>\<open>AttributeError\<close> of \<^verbatim>\<open>getattr\<close> into \<^verbatim>\<open>ValueError\<close>; the call
  \<^verbatim>\<open>hash_alg(stringified).hexdigest()\<close> stands outside both.
\<close>

definition digest ::
  "(string \<Rightarrow> string \<Rightarrow> string) \<Rightarrow> (string \<Rightarrow> hashlib_attr option) \<Rightarrow> (real \<Rightarrow> string)
     \<Rightarrow> pyval \<Rightarrow> string \<Rightarrow> exn + string" where
  "digest hexdigest undocumented float_repr obj algorithm =
     (case dumps float_repr obj of
        Inl e \<Rightarrow> (if e = TypeError then Inl ValueError else Inl e)
      | Inr stringified \<Rightarrow>
          (case hashlib_getattr undocumented algorithm of
             None \<Rightarrow> Inl ValueError
           | Some Constructor \<Rightarrow> Inr (hexdigest algorithm stringified)
           | Some _ \<Rightarrow> Inl TypeError))"

section \<open>A store to run the functions on\<close>

text \<open>
  A package directory with three schema files.  Each declares the identifier composed from
  the base, the version and its file name.  The second is a model schema written with the
  keywords modelled above; the third requires the field \<^verbatim>\<open>array\<close> to be of type \<^verbatim>\<open>array\<close>.
\<close>

definition defs_json :: json where
  "defs_json =
     JObj [(''$schema'', JStr ''http://json-schema.org/draft-06/schema#''),
           (''$id'', JStr ''https://scikit-hep.org/pyhf/schemas/1.0.0/defs.json''),
           (''definitions'', JObj [])]"

definition model_json :: json where
  "model_json =
     JObj [(''$schema'', JStr ''http://json-schema.org/draft-06/schema#''),
           (''$id'', JStr ''https://scikit-hep.org/pyhf/schemas/1.0.0/model.json''),
           (''type'', JStr ''object''),
           (''properties'',
              JObj [(''channels'',
                 JObj [(''type'', JStr ''array''),
                       (''items'',
                          JObj [(''type'', JStr ''object''),
                                (''required'', JArr [JStr ''name'', JStr ''samples'']),
                                (''properties'',
                                   JObj [(''name'', JObj [(''type'', JStr ''string'')]),
                                         (''samples'', JObj [(''type'', JStr ''array'')])])])])]),
           (''required'', JArr [JStr ''channels''])]"

definition array_schema :: "string \<Rightarrow> json" where
  "array_schema ident =
     JObj [(''$id'', JStr ident),
           (''type'', JStr ''object''),
           (''properties'', JObj [(''array'', JObj [(''type'', JStr ''array'')])]),
           (''required'', JArr [JStr ''array''])]"

definition example_store :: "(string \<times> json) list" where
  "example_store =
     [(''schemas/1.0.0/defs.json'', defs_json),
      (''schemas/1.0.0/model.json'', model_json),
      (''schemas/1.0.0/array.json'',
         array_schema ''https://scikit-hep.org/pyhf/schemas/1.0.0/array.json'')]"

definition example_files :: files where
  "example_files p = (case map_of example_store p of None \<Rightarrow> Absent | Some doc \<Rightarrow> Document doc)"

text \<open>
  Stand-ins for the parameters, to run the functions on concrete inputs: a loader that reads
  a non-empty stream as one plain scalar, a digest that returns its input behind the name of
  the algorithm, a module with no further attribute, and the text of the three floats used
  in the examples.
\<close>

definition plain_scalar_loader :: "string \<Rightarrow> exn + pyval" where
  "plain_scalar_loader document = Inr (PStr document)"





section \<open>Properties of \<^verbatim>\<open>load_schema\<close>\<close>

lemma load_schema_again:
  "load_schema fs (snd (load_schema fs c sid v)) sid v = load_schema fs c sid v"
  by (auto simp: load_schema_def Let_def split: option.splits fs_entry.splits sum.splits)

lemma schema_path_defs: "schema_path ''1.0.0'' ''defs.json'' = ''schemas/1.0.0/defs.json''"
  by (simp add: schema_path_def joinpath_def splitroot_def components_def format_parsed_parts_def)


text \<open>
  Claim C4.  Resolving the same schema identifier twice is idempotent: when the store holds a
  document for the pair (schema_id, version) and the document declares a hashable \<^verbatim>\<open>$id\<close>, two
  successive calls of \<^verbatim>\<open>load_schema\<close> with the same arguments both return a document, and the
  same one.  The second call runs on the cache the first call left behind.
\<close>

theorem load_schema_idempotent:
  assumes "fs (schema_path (version_or_default version) schema_id) = Document doc"
    and "getitem doc ''$id'' = Inr ident" and "hash_key ident = Inr k"
  shows "\<exists>d. fst (load_schema fs c schema_id version) = Inr d \<and>
             fst (load_schema fs (snd (load_schema fs c schema_id version)) schema_id version) = Inr d"
proof -
  have "\<exists>d. fst (load_schema fs c schema_id version) = Inr d"
    using assms by (cases "c (cache_key (version_or_default version) schema_id)")
      (simp_all add: load_schema_def Let_def)
  then show ?thesis by (auto simp: load_schema_again)
qed

theorem load_schema_idempotent_witness:
  "example_files (schema_path (version_or_default None) ''defs.json'') = Document defs_json \<and>
   getitem defs_json ''$id'' = Inr (JStr ''https://scikit-hep.org/pyhf/schemas/1.0.0/defs.json'') \<and>
   hash_key (JStr ''https://scikit-hep.org/pyhf/schemas/1.0.0/defs.json'')
     = Inr (KStr ''https://scikit-hep.org/pyhf/schemas/1.0.0/defs.json'') \<and>
   (\<exists>d. fst (load_schema example_files Map.empty ''defs.json'' None) = Inr d \<and>
        fst (load_schema example_files
              (snd (load_schema example_files Map.empty ''defs.json'' None)) ''defs.json'' None) = Inr d)"
proof -
  have a: "example_files (schema_path (version_or_default None) ''defs.json'') = Document defs_json"
    by (simp add: version_or_default_def SCHEMA_VERSION_def schema_path_defs example_files_def
        example_store_def)
  have b: "getitem defs_json ''$id'' = Inr (JStr ''https://scikit-hep.org/pyhf/schemas/1.0.0/defs.json'')"
    by (simp add: getitem_def defs_json_def)
  have c: "hash_key (JStr ''https://scikit-hep.org/pyhf/schemas/1.0.0/defs.json'')
     = Inr (KStr ''https://scikit-hep.org/pyhf/schemas/1.0.0/defs.json'')"
    by (simp add: hash_key_def)
  show ?thesis
    using a b c load_schema_idempotent [of example_files None "''defs.json''" defs_json
      "JStr ''https://scikit-hep.org/pyhf/schemas/1.0.0/defs.json''"
      "KStr ''https://scikit-hep.org/pyhf/schemas/1.0.0/defs.json''" Map.empty] by blast
qed

lemma validate_cache:
  "snd (validate lib fs types c spec sid v a) = snd (load_schema fs c sid v)"
  by (cases "load_schema fs c sid v")
    (auto simp: validate_def Let_def split: sum.splits option.splits exn.splits)

section \<open>Determinism of \<^verbatim>\<open>validate\<close>\<close>

text \<open>
  Claim C9.  \<^verbatim>\<open>validate\<close> is deterministic: for a fixed instance, schema identifier, version,
  \<^verbatim>\<open>allow_tensors\<close> flag, set of registered array types, store and library, running it a
  second time, on the cache the first run left behind, gives the outcome of the first run:
  both return \<^verbatim>\<open>None\<close> or both raise the same exception.
\<close>

theorem validate_deterministic:
  "fst (validate lib fs array_types
          (snd (validate lib fs array_types c spec schema_id version allow_tensors))
          spec schema_id version allow_tensors)
   = fst (validate lib fs array_types c spec schema_id version allow_tensors)"
proof -
  have "validate lib fs array_types (snd (load_schema fs c schema_id version)) spec schema_id
          version allow_tensors
        = validate lib fs array_types c spec schema_id version allow_tensors"
    unfolding validate_def load_schema_again
    by (cases "load_schema fs c schema_id version") (simp split: sum.splits)
  then show ?thesis by (simp add: validate_cache)
qed

section \<open>What the calls do to the cache\<close>












section \<open>The example store is laid out as the package's\<close>














section \<open>A schema that is missing\<close>



section \<open>Entries of the cache stay\<close>



section \<open>Option strings\<close>

lemma option_line_delim:
  "CHR ''='' \<in> set opt \<Longrightarrow> option_line opt = Inr (key_value_line opt)"
  by (simp add: option_line_def split_once_def subscript_def key_value_line_def)

lemma option_line_no_delim:
  "CHR ''='' \<notin> set opt \<Longrightarrow> option_line opt = Inl IndexError"
  by (simp add: option_line_def split_once_def subscript_def)

lemma option_line_cases:
  "option_line opt = (if CHR ''='' \<in> set opt then Inr (key_value_line opt) else Inl IndexError)"
  by (simp add: option_line_delim option_line_no_delim)

lemma option_lines_all:
  "\<forall>opt\<in>set opts. CHR ''='' \<in> set opt \<Longrightarrow> option_lines opts = Inr (map key_value_line opts)"
  by (induction opts) (simp_all add: option_line_delim)

lemma option_lines_some:
  "\<exists>opt\<in>set opts. CHR ''='' \<notin> set opt \<Longrightarrow> option_lines opts = Inl IndexError"
proof (induction opts)
  case Nil
  then show ?case by simp
next
  case (Cons opt opts)
  show ?case
  proof (cases "CHR ''='' \<in> set opt")
    case True
    with Cons.prems have "\<exists>x\<in>set opts. CHR ''='' \<notin> set x" by auto
    with Cons.IH True show ?thesis by (simp add: option_line_delim)
  next
    case False
    then show ?thesis by (simp add: option_line_no_delim)
  qed
qed

text \<open>
  Claim C8, as the code has it.  When an entry has no \<^verbatim>\<open>=\<close>, the call raises \<^verbatim>\<open>IndexError\<close>
  and the loader is never reached.  When every entry has one, the call returns what the
  YAML loader makes of the lines \<^verbatim>\<open>key: value\<close> joined by newlines, which need not be a mapping.
\<close>

theorem options_from_eqdelimstring_outcomes:
  "((\<exists>opt\<in>set opts. CHR ''='' \<notin> set opt) \<longrightarrow>
      options_from_eqdelimstring nonempty_stream opts = Inl IndexError) \<and>
   ((\<forall>opt\<in>set opts. CHR ''='' \<in> set opt) \<longrightarrow>
      options_from_eqdelimstring nonempty_stream opts
        = safe_load nonempty_stream (str_join [CHR 0x0A] (map key_value_line opts)))"
  by (auto simp: options_from_eqdelimstring_def option_lines_all dest!: option_lines_some)

theorem options_from_eqdelimstring_outcomes_witness:
  "CHR ''='' \<notin> set ''verbose'' \<and>
   options_from_eqdelimstring plain_scalar_loader [''a=1'', ''verbose''] = Inl IndexError \<and>
   CHR ''='' \<in> set ''a=1'' \<and> CHR ''='' \<in> set ''b=x=y'' \<and>
   options_from_eqdelimstring plain_scalar_loader [''a=1'', ''b=x=y'']
     = Inr (PStr (''a: 1'' @ [CHR 0x0A] @ ''b: x=y''))"
proof -
  have a: "\<exists>opt\<in>set [''a=1'', ''verbose'']. CHR ''='' \<notin> set opt" by simp
  have b: "\<forall>opt\<in>set [''a=1'', ''b=x=y'']. CHR ''='' \<in> set opt" by simp
  have c: "safe_load plain_scalar_loader (str_join [CHR 0x0A] (map key_value_line [''a=1'', ''b=x=y'']))
     = Inr (PStr (''a: 1'' @ [CHR 0x0A] @ ''b: x=y''))"
    by (simp add: safe_load_def key_value_line_def plain_scalar_loader_def)
  from options_from_eqdelimstring_outcomes [of "[''a=1'', ''verbose'']" plain_scalar_loader] a
  have 1: "options_from_eqdelimstring plain_scalar_loader [''a=1'', ''verbose''] = Inl IndexError"
    by blast
  from options_from_eqdelimstring_outcomes [of "[''a=1'', ''b=x=y'']" plain_scalar_loader] b c
  have 2: "options_from_eqdelimstring plain_scalar_loader [''a=1'', ''b=x=y'']
     = Inr (PStr (''a: 1'' @ [CHR 0x0A] @ ''b: x=y''))"
    by simp
  show ?thesis using 1 2 by simp
qed

text \<open>
  The claim as stated promises a mapping whenever every entry has a delimiter.  The empty
  list has no entry without one, and the call returns \<^verbatim>\<open>None\<close> for it.
\<close>

theorem options_from_eqdelimstring_empty_not_mapping:
  "\<not> is_mapping (options_from_eqdelimstring plain_scalar_loader [])"
  by (simp add: options_from_eqdelimstring_def safe_load_def is_mapping_def)

text \<open>
  Claim C10.  Applied to the empty list, \<^verbatim>\<open>options_from_eqdelimstring\<close> returns \<^verbatim>\<open>None\<close>, the
  value the loader gives for the empty document, and not an empty mapping; this holds
  whatever the loader does on other documents.
\<close>

theorem options_from_eqdelimstring_empty:
  "options_from_eqdelimstring nonempty_stream [] = Inr PNone"
  by (simp add: options_from_eqdelimstring_def safe_load_def)

section \<open>Digests\<close>






section \<open>A name of \<^verbatim>\<open>hashlib\<close> that is not an algorithm\<close>

text \<open>
  Claim C7 says that an unsupported algorithm name gives a \<^verbatim>\<open>ValueError\<close>, as the docstring of
  \<^verbatim>\<open>digest\<close> does.  The name \<^verbatim>\<open>new\<close> is an attribute of \<^verbatim>\<open>hashlib\<close>, so \<^verbatim>\<open>getattr\<close> does not raise; the
  call of that attribute on the serialized bytes raises \<^verbatim>\<open>TypeError\<close>, outside the \<^verbatim>\<open>try\<close>.
\<close>

theorem digest_not_an_algorithm:
  "digest hexdigest undocumented float_repr (PDict [(''a'', PFloat 2)]) ''new'' = Inl TypeError"
  by (simp add: digest_def hashlib_getattr_def)

end
